theory Spec2Isabelle
  imports Main
begin

section \<open>JavaScript values used by the extension\<close>

text \<open>
  A JavaScript string is a sequence of code units and \<open>length\<close> counts them. The model
  uses \<^typ>\<open>string\<close>, one \<^typ>\<open>char\<close> per code unit, which covers the code units
  below 256. Among those, the class \<open>\s\<close> of regular expressions and the characters
  removed by \<open>trim()\<close> are tab, line feed, vertical tab, form feed, carriage return,
  space and the no-break space.
\<close>

definition is_space :: "char \<Rightarrow> bool" where
  "is_space c \<longleftrightarrow>
     c = CHR 0x09 \<or> c = CHR 0x0A \<or> c = CHR 0x0B \<or> c = CHR 0x0C \<or> c = CHR 0x0D \<or>
     c = CHR 0x20 \<or> c = CHR 0xA0"

text \<open>The line feed \<open>\n\<close> and the double quote, which string literals cannot hold.\<close>

abbreviation LF :: char where
  "LF \<equiv> CHR 0x0A"

abbreviation DQ :: char where
  "DQ \<equiv> CHR 0x22"

text \<open>\<open>s.trim()\<close>\<close>

definition trim :: "string \<Rightarrow> string" where
  "trim s = rev (dropWhile is_space (rev (dropWhile is_space s)))"

text \<open>A promise that rejects, or a call that throws, against one that yields a value.\<close>

datatype 'a outcome = Throws | Returns 'a

section \<open>Content script: \<open>extractPageContent\<close>\<close>

text \<open>\<open>s.replace(/\s+/g, ' ')\<close>: every maximal run of white space becomes one space.\<close>

function replace_ws_runs :: "string \<Rightarrow> string" where
  "replace_ws_runs [] = []"
| "replace_ws_runs (c # cs) =
     (if is_space c then CHR 0x20 # replace_ws_runs (dropWhile is_space cs)
      else c # replace_ws_runs cs)"
  by pat_completeness auto
termination
  by (relation "measure length") (auto simp: le_imp_less_Suc length_dropWhile_le)

text \<open>
  \<open>s.replace(/\n\s*\n/g, '\n\n')\<close>: at a line feed, the greedy \<open>\s*\<close> takes the whole
  run of white space that follows and backtracks to the last line feed in it; when the
  run holds no line feed there is no match at this position and the scan moves on.
\<close>

function replace_blank_lines :: "string \<Rightarrow> string" where
  "replace_blank_lines [] = []"
| "replace_blank_lines (c # cs) =
     (let run = takeWhile is_space cs in
      if c = LF \<and> LF \<in> set run
      then LF # LF #
           replace_blank_lines
             (rev (takeWhile (\<lambda>x. x \<noteq> LF) (rev run)) @ dropWhile is_space cs)
      else c # replace_blank_lines cs)"
  by pat_completeness auto
termination
proof (relation "measure length", goal_cases)
  case 1
  show ?case by simp
next
  case (2 c cs run)
  have "length (takeWhile (\<lambda>x. x \<noteq> LF) (rev run)) \<le> length run"
    using length_takeWhile_le [of _ "rev run"] by simp
  moreover have "length run + length (dropWhile is_space cs) = length cs"
    unfolding 2(1) by (metis length_append takeWhile_dropWhile_id)
  ultimately show ?case by simp
next
  case 3
  then show ?case by simp
qed

text \<open>
  The element chosen by the selector list, cloned and stripped of the unwanted elements,
  is read through \<open>textContent\<close> and \<open>innerText\<close>; any of the DOM calls before that
  may throw (a document without a body has no element to clone).
\<close>

record cloned =
  textContent :: string
  innerText :: "string option"

record document =
  doc_title :: string
  doc_href :: string
  doc_cloned :: "cloned outcome"

record page_data =
  title :: string
  url :: string
  content :: string
  contentLength :: nat

datatype extract_result = Failure | Success page_data

text \<open>\<open>cloned.textContent || cloned.innerText || ''\<close>\<close>

definition flatten_text :: "cloned \<Rightarrow> string" where
  "flatten_text el =
     (if textContent el \<noteq> [] then textContent el
      else case innerText el of
             None \<Rightarrow> []
           | Some t \<Rightarrow> t)"

text \<open>The clean-up of white space applied to the flattened text.\<close>

definition clean_whitespace :: "string \<Rightarrow> string" where
  "clean_whitespace s = trim (replace_blank_lines (replace_ws_runs s))"

text \<open>The limit on the content size, and the marker appended when it is exceeded.\<close>

definition limit_content :: "string \<Rightarrow> string" where
  "limit_content mainContent =
     (if length mainContent > 10000 then take 10000 mainContent @ ''...''
      else mainContent)"

definition extractPageContent :: "document \<Rightarrow> extract_result" where
  "extractPageContent doc =
     (case doc_cloned doc of
        Throws \<Rightarrow> Failure
      | Returns el \<Rightarrow>
          (let mainContent = limit_content (clean_whitespace (flatten_text el)) in
           Success \<lparr> title = doc_title doc, url = doc_href doc,
                     content = mainContent, contentLength = length mainContent \<rparr>))"

section \<open>Background worker: the model relay\<close>

text \<open>
  \<open>JSON.parse\<close> is the platform's and is a parameter of the model: it yields the record
  of a line, or nothing where the source's inner \<open>try\<close> catches (the line is not JSON, or
  it is the JSON \<open>null\<close>, whose property access throws). A record of the generation
  stream is \<open>{response?, done?, model?, context?}\<close>; an absent field is \<open>None\<close>,
  and an absent completion flag is \<open>False\<close>.
\<close>

record stream_record =
  rec_response :: "string option"
  rec_done :: bool
  rec_model :: "string option"
  rec_context :: "nat list option"

type_synonym json_parse = "string \<Rightarrow> stream_record option"

text \<open>
  The answer of \<open>fetch\<close>: the status, and the body as the reader delivers it, chunk by
  chunk (already decoded), until it reports \<open>done\<close> or a read rejects.
\<close>

datatype stream_end = EndOfStream | ReadRejects

record http_response =
  resp_ok :: bool
  resp_status :: nat
  resp_chunks :: "string list"
  resp_end :: stream_end

type_synonym fetch_generate = "string \<Rightarrow> string \<Rightarrow> http_response outcome"

text \<open>
  The errors that reach a \<open>catch\<close> of the background worker, in place of their
  messages: \<open>'No model selected'\<close>, \<open>'Ollama API error: <status>'\<close>, and whatever the
  platform raised.
\<close>

datatype error = NoModelSelected | OllamaApiError nat | PlatformError

record generated =
  gen_text :: string
  gen_model :: "string option"
  gen_context :: "nat list option"

text \<open>
  \<open>chunk.split('\n')\<close>: a character other than the line feed joins the first piece of
  the rest, which always has one (the split of the empty string is one empty piece).
\<close>

fun split_nl :: "string \<Rightarrow> string list" where
  "split_nl [] = [[]]"
| "split_nl (c # cs) =
     (if c = LF then [] # split_nl cs
      else case split_nl cs of
             [] \<Rightarrow> [[c]]
           | piece # pieces \<Rightarrow> (c # piece) # pieces)"

text \<open>\<open>chunk.split('\n').filter(line => line.trim())\<close>\<close>

definition lines_of :: "string \<Rightarrow> string list" where
  "lines_of chunk = filter (\<lambda>line. trim line \<noteq> []) (split_nl chunk)"

text \<open>
  The body of the inner \<open>try\<close> for one parsed record, up to the test of the completion
  flag: a non-empty fragment is appended to \<open>fullResponse\<close> and handed to \<open>onChunk\<close>
  when the caller gave one. \<open>onChunk\<close> acts on a state of the caller's.
\<close>

definition take_fragment ::
  "('s \<Rightarrow> string \<Rightarrow> 's) option \<Rightarrow> stream_record \<Rightarrow> string \<times> 's \<Rightarrow> string \<times> 's" where
  "take_fragment onChunk rec acc =
     (case rec_response rec of
        None \<Rightarrow> acc
      | Some fragment \<Rightarrow>
          if fragment = [] then acc
          else (fst acc @ fragment,
                case onChunk of None \<Rightarrow> snd acc | Some f \<Rightarrow> f (snd acc) fragment))"

text \<open>
  \<open>for (const line of lines)\<close>: the first component is the value of the \<open>return\<close>
  inside the loop, when a record with the completion flag was met.
\<close>

fun for_lines ::
  "json_parse \<Rightarrow> ('s \<Rightarrow> string \<Rightarrow> 's) option \<Rightarrow> string list \<Rightarrow> string \<times> 's \<Rightarrow>
     generated option \<times> string \<times> 's" where
  "for_lines parse onChunk [] acc = (None, acc)"
| "for_lines parse onChunk (line # lines) acc =
     (case parse line of
        None \<Rightarrow> for_lines parse onChunk lines acc
      | Some rec \<Rightarrow>
          (let acc' = take_fragment onChunk rec acc in
           if rec_done rec
           then (Some \<lparr> gen_text = fst acc', gen_model = rec_model rec,
                        gen_context = rec_context rec \<rparr>, acc')
           else for_lines parse onChunk lines acc'))"

text \<open>\<open>while (true)\<close> over the reads of the body, and the \<open>return\<close> after it.\<close>

fun read_loop ::
  "json_parse \<Rightarrow> ('s \<Rightarrow> string \<Rightarrow> 's) option \<Rightarrow> string list \<Rightarrow> stream_end \<Rightarrow> string \<times> 's \<Rightarrow>
     (error + generated) \<times> 's" where
  "read_loop parse onChunk [] ending acc =
     (case ending of
        ReadRejects \<Rightarrow> (Inl PlatformError, snd acc)
      | EndOfStream \<Rightarrow>
          (Inr \<lparr> gen_text = fst acc, gen_model = None, gen_context = None \<rparr>, snd acc))"
| "read_loop parse onChunk (chunk # chunks) ending acc =
     (case for_lines parse onChunk (lines_of chunk) acc of
        (Some result, acc') \<Rightarrow> (Inr result, snd acc')
      | (None, acc') \<Rightarrow> read_loop parse onChunk chunks ending acc')"

definition generateWithOllama ::
  "json_parse \<Rightarrow> fetch_generate \<Rightarrow> string \<Rightarrow> string \<Rightarrow> ('s \<Rightarrow> string \<Rightarrow> 's) option \<Rightarrow> 's \<Rightarrow>
     (error + generated) \<times> 's" where
  "generateWithOllama parse fetch model prompt onChunk s =
     (case fetch model prompt of
        Throws \<Rightarrow> (Inl PlatformError, s)
      | Returns resp \<Rightarrow>
          if \<not> resp_ok resp then (Inl (OllamaApiError (resp_status resp)), s)
          else read_loop parse onChunk (resp_chunks resp) (resp_end resp) ([], s))"

section \<open>Background worker: the tab directory\<close>

text \<open>
  A tab as \<open>chrome.tabs\<close> reports it: the id, the title and the URL are optional
  properties (\<open>undefined\<close> is \<open>None\<close>).
\<close>

record tab =
  tab_id :: "nat option"
  tab_title :: "string option"
  tab_url :: "string option"
  tab_active :: bool

text \<open>
  The platform is a parameter of the model. \<open>chrome.tabs.sendMessage\<close> answers with the
  content script's result, or with nothing; its second argument tells whether this
  extraction has injected \<open>content.js\<close> before the call. The calls made are recorded.
\<close>

record chrome =
  tabs_get :: "nat option \<Rightarrow> tab option outcome"
  tabs_query_active :: "tab list outcome"
  tabs_sendMessage :: "nat option \<Rightarrow> bool \<Rightarrow> extract_result option outcome"
  scripting_executeScript :: "nat option \<Rightarrow> unit outcome"

datatype call =
  TabsGet "nat option"
| TabsQuery
| SendMessage "nat option"
| ExecuteScript "nat option"

text \<open>The calls that run or reach a script in the page.\<close>

fun page_scripting :: "call \<Rightarrow> bool" where
  "page_scripting (SendMessage _) = True"
| "page_scripting (ExecuteScript _) = True"
| "page_scripting _ = False"

text \<open>\<open>x || d\<close> for an optional string \<open>x\<close>: the empty string is falsy too.\<close>

definition js_or :: "string option \<Rightarrow> string \<Rightarrow> string" where
  "js_or x d = (case x of None \<Rightarrow> d | Some v \<Rightarrow> if v = [] then d else v)"

text \<open>\<open>s.startsWith(p)\<close>\<close>

definition startsWith :: "string \<Rightarrow> string \<Rightarrow> bool" where
  "startsWith s p \<longleftrightarrow> take (length p) s = p"

text \<open>The condition under which both extraction functions refuse to access the tab.\<close>

definition cannot_access :: "string \<Rightarrow> bool" where
  "cannot_access tabUrl \<longleftrightarrow>
     tabUrl = [] \<or>
     tabUrl = '''' \<or>
     startsWith tabUrl ''chrome://'' \<or>
     startsWith tabUrl ''chrome-extension://'' \<or>
     startsWith tabUrl ''edge://'' \<or>
     startsWith tabUrl ''brave://'' \<or>
     startsWith tabUrl ''about:'' \<or>
     startsWith tabUrl ''data:''"

text \<open>
  The inner \<open>try\<close> of both extraction functions: the message to the content script and,
  when that rejects, one injection of \<open>content.js\<close> and one retry.
\<close>

definition request_content ::
  "chrome \<Rightarrow> nat option \<Rightarrow> extract_result option outcome \<times> call list" where
  "request_content chrome tabId =
     (case tabs_sendMessage chrome tabId False of
        Returns response \<Rightarrow> (Returns response, [SendMessage tabId])
      | Throws \<Rightarrow>
          (case scripting_executeScript chrome tabId of
             Throws \<Rightarrow> (Throws, [SendMessage tabId, ExecuteScript tabId])
           | Returns _ \<Rightarrow>
               (tabs_sendMessage chrome tabId True,
                [SendMessage tabId, ExecuteScript tabId, SendMessage tabId])))"

text \<open>
  The result of \<open>extractTabContent\<close>: the four fields of every path, and \<open>tabTitle\<close>
  and \<open>tabUrl\<close>, which only the successful path sets.
\<close>

record extraction = page_data +
  tabTitle :: "string option"
  tabUrl :: "string option"

definition extractTabContent :: "chrome \<Rightarrow> nat option \<Rightarrow> extraction \<times> call list" where
  "extractTabContent chrome tabId =
     (case tabs_get chrome tabId of
        Throws \<Rightarrow>
          (\<lparr> title = ''Error'', url = [],
             content = ''[Could not extract content - tab may need to be refreshed]'',
             contentLength = 0, tabTitle = None, tabUrl = None \<rparr>,
           [TabsGet tabId])
      | Returns None \<Rightarrow>
          (\<lparr> title = ''Error'', url = [], content = ''[Tab not found]'',
             contentLength = 0, tabTitle = None, tabUrl = None \<rparr>,
           [TabsGet tabId])
      | Returns (Some tab) \<Rightarrow>
          (if cannot_access (js_or (tab_url tab) [])
           then (\<lparr> title = js_or (tab_title tab) ''Restricted Tab'',
                    url = js_or (tab_url tab) [],
                    content = ''[Cannot access system or extension pages]'',
                    contentLength = 0, tabTitle = None, tabUrl = None \<rparr>,
                 [TabsGet tabId])
           else
             (case request_content chrome tabId of
                (Returns (Some (Success data)), calls) \<Rightarrow>
                  (\<lparr> title = title data, url = url data, content = content data,
                     contentLength = contentLength data,
                     tabTitle = tab_title tab, tabUrl = tab_url tab \<rparr>,
                   TabsGet tabId # calls)
              | (_, calls) \<Rightarrow>
                  (\<lparr> title = js_or (tab_title tab) ''Error'',
                     url = js_or (tab_url tab) [],
                     content = ''[Could not extract content - tab may need to be refreshed]'',
                     contentLength = 0, tabTitle = None, tabUrl = None \<rparr>,
                   TabsGet tabId # calls))))"

text \<open>\<open>!tab.id\<close>: an absent id and the id 0 are both falsy.\<close>

definition no_id :: "tab \<Rightarrow> bool" where
  "no_id tab \<longleftrightarrow> (case tab_id tab of None \<Rightarrow> True | Some n \<Rightarrow> n = 0)"

definition extractActiveTabContent :: "chrome \<Rightarrow> page_data \<times> call list" where
  "extractActiveTabContent chrome =
     (case tabs_query_active chrome of
        Throws \<Rightarrow>
          (\<lparr> title = ''Current Tab'', url = [],
             content = ''[Content extraction unavailable - tab may need to be refreshed]'',
             contentLength = 0 \<rparr>,
           [TabsQuery])
      | Returns [] \<Rightarrow>
          (\<lparr> title = ''Current Tab'', url = [], content = ''[No active tab found]'',
             contentLength = 0 \<rparr>,
           [TabsQuery])
      | Returns (tab # _) \<Rightarrow>
          if no_id tab
          then (\<lparr> title = ''Current Tab'', url = [], content = ''[No active tab found]'',
                   contentLength = 0 \<rparr>,
                [TabsQuery])
          else if cannot_access (js_or (tab_url tab) [])
          then (\<lparr> title = ''Current Tab'', url = [],
                   content = ''[Cannot access system or extension pages]'',
                   contentLength = 0 \<rparr>,
                [TabsQuery])
          else
            (case request_content chrome (tab_id tab) of
               (Returns (Some (Success data)), calls) \<Rightarrow> (data, TabsQuery # calls)
             | (_, calls) \<Rightarrow>
                 (\<lparr> title = ''Current Tab'', url = [],
                    content = ''[Content extraction unavailable - tab may need to be refreshed]'',
                    contentLength = 0 \<rparr>,
                  TabsQuery # calls)))"

section \<open>Background worker: the orchestrator\<close>

text \<open>
  The data of a \<open>query\<close> or \<open>queryStream\<close> request. A mentioned tab is the
  \<open>{id, title, url}\<close> the side panel copies from a tab; \<open>mentionedTabs\<close> absent is the
  empty list (the default of the destructuring). A model that is absent or the empty
  string is falsy: \<open>!model\<close> holds.
\<close>

record mention =
  m_id :: "nat option"
  m_title :: "string option"
  m_url :: "string option"

record query_data =
  q_query :: string
  q_model :: "string option"
  q_includePageContent :: bool
  q_mentionedTabs :: "mention list"
  q_messageId :: "string option"

text \<open>An optional string inside a template literal: \<open>undefined\<close> prints as its name.\<close>

definition tpl :: "string option \<Rightarrow> string" where
  "tpl x = (case x of None \<Rightarrow> ''undefined'' | Some v \<Rightarrow> v)"

text \<open>\<open>parts.join(sep)\<close>\<close>

fun join :: "string \<Rightarrow> string list \<Rightarrow> string" where
  "join sep [] = []"
| "join sep [x] = x"
| "join sep (x # y # ys) = x @ sep @ join sep (y # ys)"

text \<open>The block pushed to \<open>contextParts\<close> for one mentioned tab.\<close>

definition tab_block :: "mention \<Rightarrow> extraction \<Rightarrow> string" where
  "tab_block tabInfo tabData =
     ''Tab: '' @ tpl (m_title tabInfo) @ [LF] @
     ''URL: '' @ tpl (m_url tabInfo) @ [LF] @
     [LF] @
     ''Content:'' @ [LF] @
     content tabData @ [LF]"

text \<open>
  \<open>tabContents.forEach((tabData, index) => ...)\<close>: \<open>mentionedTabs[index]\<close> beyond the
  end of the list is \<open>undefined\<close>, and reading its title throws.
\<close>

fun forEach_tabContents ::
  "mention list \<Rightarrow> extraction list \<Rightarrow> nat \<Rightarrow> string list \<Rightarrow> string list outcome" where
  "forEach_tabContents mentionedTabs [] index contextParts = Returns contextParts"
| "forEach_tabContents mentionedTabs (tabData # rest) index contextParts =
     (if index < length mentionedTabs
      then forEach_tabContents mentionedTabs rest (Suc index)
             (contextParts @ [tab_block (mentionedTabs ! index) tabData])
      else Throws)"

definition tabs_prompt :: "string list \<Rightarrow> string \<Rightarrow> string" where
  "tabs_prompt contextParts query =
     ''Based on the following web page content from referenced tabs, please answer the question.''
     @ [LF] @
     [LF] @
     join ([LF] @ ''---'' @ [LF, LF]) contextParts @ [LF] @
     [LF] @
     ''Question: '' @ query @ [LF] @
     [LF] @
     ''Answer:''"

definition page_prompt :: "page_data \<Rightarrow> string \<Rightarrow> string" where
  "page_prompt pageData query =
     ''Based on the following web page content, please answer the question.'' @ [LF] @
     [LF] @
     ''Page Title: '' @ title pageData @ [LF] @
     ''URL: '' @ url pageData @ [LF] @
     [LF] @
     ''Content:'' @ [LF] @
     content pageData @ [LF] @
     [LF] @
     ''Question: '' @ query @ [LF] @
     [LF] @
     ''Answer:''"

text \<open>
  The prompt of \<open>handleQuery\<close>, from \<open>let prompt = query\<close> to the call of the
  generator. \<open>Promise.all\<close> keeps the order of \<open>mentionedTabs\<close>. The \<open>catch\<close> around
  the extraction of the active tab is not reached: \<open>extractActiveTabContent\<close> returns a
  record on every path.
\<close>

definition handleQuery_prompt :: "chrome \<Rightarrow> query_data \<Rightarrow> string outcome" where
  "handleQuery_prompt chrome data =
     (if length (q_mentionedTabs data) > 0
      then
        (let tabContents =
               map (\<lambda>t. fst (extractTabContent chrome (m_id t))) (q_mentionedTabs data) in
         case forEach_tabContents (q_mentionedTabs data) tabContents 0 [] of
           Throws \<Rightarrow> Throws
         | Returns contextParts \<Rightarrow> Returns (tabs_prompt contextParts (q_query data)))
      else if q_includePageContent data
      then Returns (page_prompt (fst (extractActiveTabContent chrome)) (q_query data))
      else Returns (q_query data))"

record reply =
  reply_text :: string
  reply_model :: "string option"

definition handleQuery ::
  "chrome \<Rightarrow> json_parse \<Rightarrow> fetch_generate \<Rightarrow> query_data \<Rightarrow> error + reply" where
  "handleQuery chrome parse fetch data =
     (case q_model data of
        None \<Rightarrow> Inl NoModelSelected
      | Some model \<Rightarrow>
          if model = [] then Inl NoModelSelected
          else
            (case handleQuery_prompt chrome data of
               Throws \<Rightarrow> Inl PlatformError
             | Returns prompt \<Rightarrow>
                 (case fst (generateWithOllama parse fetch model prompt None ()) of
                    Inr result \<Rightarrow>
                      Inr \<lparr> reply_text = gen_text result, reply_model = gen_model result \<rparr>
                  | Inl err \<Rightarrow> Inl err)))"

text \<open>
  The prompt of \<open>handleStreamingQuery\<close>, from \<open>let prompt = query\<close> to the call of the
  generator. The function does not read \<open>mentionedTabs\<close>.
\<close>

definition handleStreamingQuery_prompt :: "chrome \<Rightarrow> query_data \<Rightarrow> string outcome" where
  "handleStreamingQuery_prompt chrome data =
     (if q_includePageContent data
      then Returns (page_prompt (fst (extractActiveTabContent chrome)) (q_query data))
      else Returns (q_query data))"

text \<open>
  The notifications \<open>handleStreamingQuery\<close> sends to the extension's pages, and its
  \<open>onChunk\<close>, which keeps \<open>fullText\<close> and sends one \<open>streamChunk\<close> per fragment.
\<close>

datatype notification =
  StreamChunk "string option" string string
| StreamComplete "string option" string "string option"

definition stream_onChunk ::
  "string option \<Rightarrow> string \<times> notification list \<Rightarrow> string \<Rightarrow> string \<times> notification list" where
  "stream_onChunk messageId st chunk =
     (fst st @ chunk, snd st @ [StreamChunk messageId chunk (fst st @ chunk)])"

text \<open>
  \<open>handleStreamingQuery\<close>. Its outer \<open>catch\<close> names \<open>messageId\<close>, a constant of the
  \<open>try\<close> block that is not in scope there: on the failure path the function throws
  instead of sending \<open>streamError\<close>, after the notifications sent so far.
\<close>

definition handleStreamingQuery ::
  "chrome \<Rightarrow> json_parse \<Rightarrow> fetch_generate \<Rightarrow> query_data \<Rightarrow> reply outcome \<times> notification list" where
  "handleStreamingQuery chrome parse fetch data =
     (case q_model data of
        None \<Rightarrow> (Throws, [])
      | Some model \<Rightarrow>
          if model = [] then (Throws, [])
          else
            (case handleStreamingQuery_prompt chrome data of
               Throws \<Rightarrow> (Throws, [])
             | Returns prompt \<Rightarrow>
                 (case generateWithOllama parse fetch model prompt
                         (Some (stream_onChunk (q_messageId data))) ([], []) of
                    (Inr result, st) \<Rightarrow>
                      (Returns \<lparr> reply_text = gen_text result,
                                 reply_model = gen_model result \<rparr>,
                       snd st @
                       [StreamComplete (q_messageId data) (gen_text result) (gen_model result)])
                  | (Inl err, st) \<Rightarrow> (Throws, snd st))))"

section \<open>Side panel\<close>

text \<open>
  The variables of the side panel that the model follows, and the value that
  \<open>chrome.storage.local\<close> holds under the key \<open>selectedModel\<close>. The elements of the
  page (the drop-down of models, the chat) are left out.
\<close>

record model_descriptor =
  md_name :: string
  md_size :: nat

record panel =
  availableModels :: "model_descriptor list"
  selectedModel :: "string option"
  allTabs :: "tab list"
  isLoading :: bool
  stored_selectedModel :: "string option"

text \<open>The answer to \<open>getModels\<close>: \<open>{success: false, error}\<close> or \<open>{success: true, models}\<close>.\<close>

datatype models_response = ModelsFailed | ModelsOk "model_descriptor list"

text \<open>A string variable that may be \<open>null\<close>, tested as a condition.\<close>

definition truthy :: "string option \<Rightarrow> bool" where
  "truthy x \<longleftrightarrow> (case x of None \<Rightarrow> False | Some v \<Rightarrow> v \<noteq> [])"

text \<open>
  \<open>loadModels\<close>: the answer is the outcome of \<open>chrome.runtime.sendMessage\<close>. With no
  model selected, the first model is selected and written to the storage.
\<close>

definition loadModels :: "models_response outcome \<Rightarrow> panel \<Rightarrow> panel" where
  "loadModels response st =
     (case response of
        Throws \<Rightarrow> st
      | Returns ModelsFailed \<Rightarrow> st
      | Returns (ModelsOk models) \<Rightarrow>
          if length models > 0
          then
            (let st1 = st \<lparr> availableModels := models \<rparr> in
             if \<not> truthy (selectedModel st1) \<and> length models > 0
             then st1 \<lparr> selectedModel := Some (md_name (models ! 0)),
                        stored_selectedModel := Some (md_name (models ! 0)) \<rparr>
             else st1)
          else st)"

text \<open>\<open>loadTabs\<close>, with the answer to \<open>getTabs\<close>.\<close>

definition loadTabs :: "tab list option outcome \<Rightarrow> panel \<Rightarrow> panel" where
  "loadTabs response st =
     (case response of
        Returns (Some tabs) \<Rightarrow> st \<lparr> allTabs := tabs \<rparr>
      | _ \<Rightarrow> st)"

text \<open>
  \<open>init\<close>, from the values of the globals at load and the storage of the earlier
  sessions: the tabs and the models are loaded, then the saved selection is read from
  the storage and taken when it names one of the available models.
\<close>

definition init ::
  "string option \<Rightarrow> tab list option outcome \<Rightarrow> models_response outcome \<Rightarrow> panel" where
  "init saved tabs_response models_response =
     (let st0 = \<lparr> availableModels = [], selectedModel = None, allTabs = [],
                  isLoading = False, stored_selectedModel = saved \<rparr>;
          st1 = loadTabs tabs_response st0;
          st2 = loadModels models_response st1;
          savedModel = stored_selectedModel st2
      in if truthy savedModel \<and>
            list_ex (\<lambda>m. Some (md_name m) = savedModel) (availableModels st2)
         then st2 \<lparr> selectedModel := savedModel \<rparr>
         else st2)"

text \<open>
  The loop shared by the two versions of \<open>parseTabMentions\<close>: each recorded title is
  looked up with \<open>allTabs.find(t => t.title === title)\<close>, and the tab found is pushed.
\<close>

fun push_mentions :: "tab list \<Rightarrow> string list \<Rightarrow> tab list" where
  "push_mentions tabs [] = []"
| "push_mentions tabs (tabName # rest) =
     (case find (\<lambda>t. tab_title t = Some tabName) tabs of
        None \<Rightarrow> push_mentions tabs rest
      | Some tab \<Rightarrow> tab # push_mentions tabs rest)"

text \<open>
  \<open>parseTabMentions()\<close> of the panel with the editable input: its argument is the
  \<open>dataset.tabTitle\<close> of the elements of class \<open>tab-mention\<close>, in document order.
\<close>

definition parseTabMentions :: "panel \<Rightarrow> string list \<Rightarrow> tab list" where
  "parseTabMentions st mentionTitles = push_mentions (allTabs st) mentionTitles"

text \<open>
  The successive matches of \<open>/@"([^"]+)"/g\<close> in a text, as \<open>regex.exec\<close> yields their
  first group: at an \<open>@\<close> followed by a quote, the name runs to the next quote and must
  not be empty; the search goes on after the closing quote, or at the next character
  when there is no match here.
\<close>

function mention_names :: "string \<Rightarrow> string list" where
  "mention_names [] = []"
| "mention_names (c # cs) =
     (if c = CHR ''@'' \<and> take 1 cs = [DQ] \<and>
         takeWhile (\<lambda>x. x \<noteq> DQ) (tl cs) \<noteq> [] \<and> dropWhile (\<lambda>x. x \<noteq> DQ) (tl cs) \<noteq> []
      then takeWhile (\<lambda>x. x \<noteq> DQ) (tl cs) #
           mention_names (tl (dropWhile (\<lambda>x. x \<noteq> DQ) (tl cs)))
      else mention_names cs)"
  by pat_completeness auto
termination
proof (relation "measure length", goal_cases)
  case 1
  show ?case by simp
next
  case (2 c cs)
  have "length (dropWhile (\<lambda>x. x \<noteq> DQ) (tl cs)) \<le> length (tl cs)"
    by (rule length_dropWhile_le)
  then show ?case by simp
next
  case 3
  then show ?case by simp
qed

text \<open>\<open>parseTabMentions(text)\<close> of the panel with the plain text area.\<close>

definition parseTabMentions_text :: "panel \<Rightarrow> string \<Rightarrow> tab list" where
  "parseTabMentions_text st query = push_mentions (allTabs st) (mention_names query)"

text \<open>
  \<open>handleSend\<close> of the panel with the plain text area, up to the request it sends to
  the background worker; \<open>None\<close> when it returns without sending.
\<close>

definition mention_of :: "tab \<Rightarrow> mention" where
  "mention_of t = \<lparr> m_id = tab_id t, m_title = tab_title t, m_url = tab_url t \<rparr>"

definition handleSend :: "panel \<Rightarrow> string \<Rightarrow> bool \<Rightarrow> query_data option" where
  "handleSend st input_value include_page =
     (let query = trim input_value in
      if query = [] \<or> isLoading st \<or> \<not> truthy (selectedModel st) then None
      else
        (let mentionedTabs = parseTabMentions_text st query in
         Some \<lparr> q_query = query, q_model = selectedModel st,
                q_includePageContent = include_page,
                q_mentionedTabs = map mention_of mentionedTabs,
                q_messageId = None \<rparr>))"

section \<open>Notions used in the statements\<close>

text \<open>The non-blank lines of a stream, in arrival order, and the records they parse to.\<close>

definition stream_lines :: "string list \<Rightarrow> string list" where
  "stream_lines chunks = concat (map lines_of chunks)"

definition stream_records :: "json_parse \<Rightarrow> string list \<Rightarrow> stream_record list" where
  "stream_records parse chunks = List.map_filter parse (stream_lines chunks)"

text \<open>The text fragments that a list of records carries: the non-empty responses.\<close>

primrec fragments :: "stream_record list \<Rightarrow> string list" where
  "fragments [] = []"
| "fragments (r # rs) =
     (case rec_response r of
        None \<Rightarrow> fragments rs
      | Some fragment \<Rightarrow> if fragment = [] then fragments rs else fragment # fragments rs)"

text \<open>The records up to and including the first one with the completion flag.\<close>

primrec upto_done :: "stream_record list \<Rightarrow> stream_record list" where
  "upto_done [] = []"
| "upto_done (r # rs) = (if rec_done r then [r] else r # upto_done rs)"

text \<open>The state of the caller after \<open>onChunk\<close> has been invoked on each fragment in turn.\<close>

definition forwarded :: "('s \<Rightarrow> string \<Rightarrow> 's) option \<Rightarrow> 's \<Rightarrow> string list \<Rightarrow> 's" where
  "forwarded onChunk s frags = (case onChunk of None \<Rightarrow> s | Some f \<Rightarrow> foldl f s frags)"

text \<open>
  The accumulator of the relay, \<open>fullResponse\<close> and the state of the caller, after the
  fragments of a list of records.
\<close>

definition accumulate ::
  "('s \<Rightarrow> string \<Rightarrow> 's) option \<Rightarrow> stream_record list \<Rightarrow> string \<times> 's \<Rightarrow> string \<times> 's" where
  "accumulate onChunk recs acc =
     (fst acc @ concat (fragments recs), forwarded onChunk (snd acc) (fragments recs))"

text \<open>An \<open>onChunk\<close> that keeps the list of its arguments.\<close>

definition log_chunk :: "string list \<Rightarrow> string \<Rightarrow> string list" where
  "log_chunk calls chunk = calls @ [chunk]"

text \<open>
  A \<open>JSON.parse\<close> cut down to the lines of the examples; every other line is taken as
  malformed.
\<close>

definition sample_parse :: json_parse where
  "sample_parse line =
     (if line = ''{\"model\":\"llama3\",\"response\":\"Hel\",\"done\":false}''
      then Some \<lparr> rec_response = Some ''Hel'', rec_done = False,
                  rec_model = Some ''llama3'', rec_context = None \<rparr>
      else if line = ''{\"model\":\"llama3\",\"response\":\"lo\",\"done\":false}''
      then Some \<lparr> rec_response = Some ''lo'', rec_done = False,
                  rec_model = Some ''llama3'', rec_context = None \<rparr>
      else if line = ''{\"model\":\"llama3\",\"response\":\"\",\"done\":true,\"context\":[1,2]}''
      then Some \<lparr> rec_response = Some [], rec_done = True,
                  rec_model = Some ''llama3'', rec_context = Some [1, 2] \<rparr>
      else None)"

text \<open>A stream of three records in two reads, and a server that answers with it.\<close>

definition sample_chunks :: "string list" where
  "sample_chunks =
     [''{\"model\":\"llama3\",\"response\":\"Hel\",\"done\":false}'' @ [LF] @
      ''{\"model\":\"llama3\",\"response\":\"lo\",\"done\":false}'' @ [LF],
      ''{\"model\":\"llama3\",\"response\":\"\",\"done\":true,\"context\":[1,2]}'' @ [LF]]"

definition sample_fetch :: "string list \<Rightarrow> fetch_generate" where
  "sample_fetch chunks model prompt =
     Returns \<lparr> resp_ok = True, resp_status = 200, resp_chunks = chunks,
               resp_end = EndOfStream \<rparr>"

text \<open>
  The URLs that the tab directory is said to refuse: no URL, the empty URL, and the
  URLs that begin with one of the listed prefixes.
\<close>

definition denylist :: "string list" where
  "denylist =
     [''chrome://'', ''chrome-extension://'', ''edge://'', ''brave://'', ''about:'', ''data:'']"

definition url_denied :: "string option \<Rightarrow> bool" where
  "url_denied u \<longleftrightarrow>
     (case u of None \<Rightarrow> True | Some v \<Rightarrow> v = [] \<or> list_ex (\<lambda>p. take (length p) v = p) denylist)"

text \<open>\<open>s.endsWith(q)\<close>\<close>

definition endsWith :: "string \<Rightarrow> string \<Rightarrow> bool" where
  "endsWith s q \<longleftrightarrow> length q \<le> length s \<and> drop (length s - length q) s = q"

text \<open>The models that an answer to \<open>getModels\<close> carries.\<close>

definition fetched_models :: "models_response outcome \<Rightarrow> model_descriptor list" where
  "fetched_models response =
     (case response of Returns (ModelsOk models) \<Rightarrow> models | _ \<Rightarrow> [])"

text \<open>
  A browser with one tab per id: tab 3 shows a page whose content script answers, tab 4
  is a settings page; every other id has no tab. The active tab is given.
\<close>

definition docs_tab :: tab where
  "docs_tab = \<lparr> tab_id = Some 3, tab_title = Some ''Docs'', tab_url = Some ''https://x'',
                tab_active = True \<rparr>"

definition settings_tab :: tab where
  "settings_tab = \<lparr> tab_id = Some 4, tab_title = Some ''Settings'',
                    tab_url = Some ''chrome://settings'', tab_active = False \<rparr>"

definition sample_page :: page_data where
  "sample_page = \<lparr> title = ''Docs'', url = ''https://x'', content = ''Hello world'',
                   contentLength = 11 \<rparr>"

definition sample_chrome :: "tab \<Rightarrow> chrome" where
  "sample_chrome active =
     \<lparr> tabs_get = (\<lambda>tabId. if tabId = Some 3 then Returns (Some docs_tab)
                             else if tabId = Some 4 then Returns (Some settings_tab)
                             else Throws),
       tabs_query_active = Returns [active],
       tabs_sendMessage = (\<lambda>tabId injected. Returns (Some (Success sample_page))),
       scripting_executeScript = (\<lambda>tabId. Returns ()) \<rparr>"

text \<open>The request of the scenario: one mentioned tab and the question.\<close>

definition sample_query :: query_data where
  "sample_query =
     \<lparr> q_query = ''Summarize'', q_model = Some ''llama3'', q_includePageContent = False,
       q_mentionedTabs = [\<lparr> m_id = Some 3, m_title = Some ''Docs'', m_url = Some ''https://x'' \<rparr>],
       q_messageId = Some ''m1'' \<rparr>"

section \<open>Properties of the content script\<close>

lemma replace_ws_runs_no_space:
  "\<forall>c \<in> set s. \<not> is_space c \<Longrightarrow> replace_ws_runs s = s"
  by (induction s) auto

lemma replace_ws_runs_no_newline: "LF \<notin> set (replace_ws_runs s)"
  by (induction s rule: replace_ws_runs.induct) (auto simp: is_space_def)

lemma replace_blank_lines_no_newline:
  "LF \<notin> set s \<Longrightarrow> replace_blank_lines s = s"
  by (induction s) (auto simp: Let_def)

lemma clean_whitespace_eq: "clean_whitespace s = trim (replace_ws_runs s)"
  by (simp add: clean_whitespace_def replace_blank_lines_no_newline replace_ws_runs_no_newline)

lemma dropWhile_none: "\<forall>c \<in> set s. \<not> P c \<Longrightarrow> dropWhile P s = s"
  by (cases s) auto

lemma trim_no_space: "\<forall>c \<in> set s. \<not> is_space c \<Longrightarrow> trim s = s"
  by (simp add: trim_def dropWhile_none)

lemma clean_whitespace_no_space:
  "\<forall>c \<in> set s. \<not> is_space c \<Longrightarrow> clean_whitespace s = s"
  by (simp add: clean_whitespace_eq replace_ws_runs_no_space trim_no_space)

lemma extractPageContent_Returns:
  "doc_cloned doc = Returns el \<Longrightarrow>
   extractPageContent doc =
     Success \<lparr> title = doc_title doc, url = doc_href doc,
               content = limit_content (clean_whitespace (flatten_text el)),
               contentLength = length (limit_content (clean_whitespace (flatten_text el))) \<rparr>"
  by (simp add: extractPageContent_def Let_def)

lemma length_limit_content:
  "length (limit_content s) = (if 10000 < length s then 10003 else length s)"
  by (simp add: limit_content_def)

lemma clean_whitespace_replicate:
  "clean_whitespace (replicate n CHR ''a'') = replicate n CHR ''a''"
  by (rule clean_whitespace_no_space) (simp add: is_space_def)

text \<open>
  C8. When the cleaned text of the page is longer than 10000 characters, the content
  returned by \<open>extractPageContent\<close> is the first 10000 characters of that text followed
  by the marker \<open>...\<close>; otherwise it is the cleaned text itself, with no marker.
\<close>

theorem extractPageContent_limit:
  assumes "doc_cloned doc = Returns el"
  shows "\<exists>d. extractPageContent doc = Success d \<and>
             content d =
               (if 10000 < length (clean_whitespace (flatten_text el))
                then take 10000 (clean_whitespace (flatten_text el)) @ ''...''
                else clean_whitespace (flatten_text el))"
  using assms by (simp add: extractPageContent_Returns limit_content_def)

theorem extractPageContent_limit_witness:
  "doc_cloned \<lparr> doc_title = ''Docs'', doc_href = ''https://x'',
                doc_cloned = Returns \<lparr> textContent = replicate 10001 CHR ''a'',
                                        innerText = None \<rparr> \<rparr>
     = Returns \<lparr> textContent = replicate 10001 CHR ''a'', innerText = None \<rparr> \<and>
   (\<exists>d. extractPageContent
           \<lparr> doc_title = ''Docs'', doc_href = ''https://x'',
             doc_cloned = Returns \<lparr> textContent = replicate 10001 CHR ''a'',
                                     innerText = None \<rparr> \<rparr> = Success d \<and>
        content d = replicate 10000 CHR ''a'' @ ''...'')"
proof -
  let ?el = "\<lparr> textContent = replicate 10001 CHR ''a'', innerText = None \<rparr>"
  let ?doc = "\<lparr> doc_title = ''Docs'', doc_href = ''https://x'', doc_cloned = Returns ?el \<rparr>"
  have sel: "doc_cloned ?doc = Returns ?el"
    by simp
  have flat: "flatten_text ?el = replicate 10001 CHR ''a''"
    by (simp add: flatten_text_def)
  show ?thesis
    using extractPageContent_limit [OF sel] sel
    by (simp only: flat clean_whitespace_replicate) simp
qed

text \<open>
  C10. Every successful result of \<open>extractPageContent\<close> reports as \<open>contentLength\<close> the
  length of the content it returns, marker included: 10003 when the cleaned text of the
  page is longer than 10000 characters.
\<close>

theorem extractPageContent_contentLength:
  assumes "extractPageContent doc = Success d"
  shows "contentLength d = length (content d) \<and>
         (\<forall>el. doc_cloned doc = Returns el \<and> 10000 < length (clean_whitespace (flatten_text el))
               \<longrightarrow> contentLength d = 10003)"
proof (cases "doc_cloned doc")
  case Throws
  with assms show ?thesis
    by (simp add: extractPageContent_def)
next
  case (Returns el)
  with assms show ?thesis
    by (auto simp: extractPageContent_Returns length_limit_content)
qed

theorem extractPageContent_contentLength_witness:
  "extractPageContent
     \<lparr> doc_title = ''Docs'', doc_href = ''https://x'',
       doc_cloned = Returns \<lparr> textContent = replicate 10001 CHR ''a'',
                               innerText = None \<rparr> \<rparr>
     = Success \<lparr> title = ''Docs'', url = ''https://x'',
                 content = replicate 10000 CHR ''a'' @ ''...'', contentLength = 10003 \<rparr> \<and>
   contentLength \<lparr> title = ''Docs'', url = ''https://x'',
                   content = replicate 10000 CHR ''a'' @ ''...'', contentLength = 10003 \<rparr>
     = length (replicate 10000 CHR ''a'' @ ''...'')"
proof -
  let ?el = "\<lparr> textContent = replicate 10001 CHR ''a'', innerText = None \<rparr>"
  let ?doc = "\<lparr> doc_title = ''Docs'', doc_href = ''https://x'', doc_cloned = Returns ?el \<rparr>"
  let ?d = "\<lparr> title = ''Docs'', url = ''https://x'',
              content = replicate 10000 CHR ''a'' @ ''...'', contentLength = 10003 \<rparr>"
  have flat: "flatten_text ?el = replicate 10001 CHR ''a''"
    by (simp add: flatten_text_def)
  have run: "extractPageContent ?doc = Success ?d"
    by (simp add: extractPageContent_Returns flat clean_whitespace_replicate limit_content_def)
  from extractPageContent_contentLength [OF run] run show ?thesis
    by simp
qed

section \<open>Properties of the model relay\<close>

lemma fragments_append: "fragments (xs @ ys) = fragments xs @ fragments ys"
  by (induction xs) (auto split: option.splits)

lemma upto_done_append:
  "upto_done (xs @ ys) = (if list_ex rec_done xs then upto_done xs else xs @ upto_done ys)"
  by (induction xs) auto

lemma upto_done_no_done: "\<not> list_ex rec_done xs \<Longrightarrow> upto_done xs = xs"
  by (induction xs) auto

lemma find_append:
  "find P (xs @ ys) = (case find P xs of None \<Rightarrow> find P ys | Some x \<Rightarrow> Some x)"
  by (induction xs) auto

lemma find_None_list_ex: "find P xs = None \<longleftrightarrow> \<not> list_ex P xs"
  by (induction xs) auto

lemma forwarded_append:
  "forwarded onChunk s (xs @ ys) = forwarded onChunk (forwarded onChunk s xs) ys"
  by (simp add: forwarded_def split: option.splits)

lemma forwarded_log_chunk: "forwarded (Some log_chunk) calls frags = calls @ frags"
  by (induction frags arbitrary: calls) (simp_all add: forwarded_def log_chunk_def)

lemma accumulate_Nil: "accumulate onChunk [] acc = acc"
  by (simp add: accumulate_def forwarded_def split: option.splits)

lemma accumulate_Cons:
  "accumulate onChunk (r # rs) acc = accumulate onChunk rs (take_fragment onChunk r acc)"
  by (auto simp: accumulate_def take_fragment_def forwarded_def split: option.splits)

lemma accumulate_append:
  "accumulate onChunk (xs @ ys) acc = accumulate onChunk ys (accumulate onChunk xs acc)"
  by (simp add: accumulate_def fragments_append forwarded_append)

text \<open>
  The loop over the lines of one read: what it returns and the accumulator it leaves
  depend on the records that the lines parse to, up to the first completed one.
\<close>

lemma for_lines_eq:
  "for_lines parse onChunk lines acc =
     (map_option
        (\<lambda>d. \<lparr> gen_text = fst (accumulate onChunk (upto_done (List.map_filter parse lines)) acc),
                gen_model = rec_model d, gen_context = rec_context d \<rparr>)
        (find rec_done (List.map_filter parse lines)),
      accumulate onChunk (upto_done (List.map_filter parse lines)) acc)"
proof (induction lines arbitrary: acc)
  case Nil
  show ?case by (simp add: accumulate_Nil)
next
  case (Cons line lines)
  show ?case
  proof (cases "parse line")
    case None
    then show ?thesis by (simp add: Cons.IH)
  next
    case (Some r)
    then show ?thesis
      by (simp add: Cons.IH Let_def accumulate_Cons accumulate_Nil)
  qed
qed

lemma map_filter_append:
  "List.map_filter f (xs @ ys) = List.map_filter f xs @ List.map_filter f ys"
  by (simp add: List.map_filter_def)

lemma map_filter_all_Some: "map f xs = map Some ys \<Longrightarrow> List.map_filter f xs = ys"
  by (induction xs arbitrary: ys) auto

lemma stream_records_Cons:
  "stream_records parse (chunk # chunks) =
     List.map_filter parse (lines_of chunk) @ stream_records parse chunks"
  by (simp add: stream_records_def stream_lines_def map_filter_append)

lemma stream_records_append:
  "stream_records parse (cs1 @ cs2) = stream_records parse cs1 @ stream_records parse cs2"
  by (simp add: stream_records_def stream_lines_def map_filter_append)

text \<open>The loop over the reads, in the same terms.\<close>

lemma read_loop_eq:
  "read_loop parse onChunk chunks ending acc =
     (case find rec_done (stream_records parse chunks) of
        Some d \<Rightarrow>
          Inr \<lparr> gen_text = fst (accumulate onChunk (upto_done (stream_records parse chunks)) acc),
                gen_model = rec_model d, gen_context = rec_context d \<rparr>
      | None \<Rightarrow>
          (case ending of
             ReadRejects \<Rightarrow> Inl PlatformError
           | EndOfStream \<Rightarrow>
               Inr \<lparr> gen_text =
                       fst (accumulate onChunk (upto_done (stream_records parse chunks)) acc),
                     gen_model = None, gen_context = None \<rparr>),
      snd (accumulate onChunk (upto_done (stream_records parse chunks)) acc))"
proof (induction chunks arbitrary: acc)
  case Nil
  show ?case
    by (simp add: stream_records_def stream_lines_def accumulate_Nil split: stream_end.splits)
next
  case (Cons chunk chunks)
  show ?case
  proof (cases "find rec_done (List.map_filter parse (lines_of chunk))")
    case None
    then have nd: "\<not> list_ex rec_done (List.map_filter parse (lines_of chunk))"
      by (simp add: find_None_list_ex)
    show ?thesis
      by (simp add: for_lines_eq None Cons.IH stream_records_Cons find_append upto_done_append nd
          upto_done_no_done accumulate_append split: option.splits stream_end.splits)
  next
    case (Some d)
    then have "find rec_done (List.map_filter parse (lines_of chunk)) \<noteq> None"
      by simp
    then have dn: "list_ex rec_done (List.map_filter parse (lines_of chunk))"
      by (simp add: find_None_list_ex)
    show ?thesis
      by (simp add: for_lines_eq Some stream_records_Cons find_append upto_done_append dn)
  qed
qed

lemma first_done:
  assumes "\<not> list_ex rec_done pre" and "rec_done d"
  shows "find rec_done (pre @ d # post) = Some d" and "upto_done (pre @ d # post) = pre @ [d]"
  using assms by (induction pre) auto

text \<open>The lines and the records of the sample stream.\<close>

lemma sample_stream_lines:
  "stream_lines sample_chunks =
     [''{\"model\":\"llama3\",\"response\":\"Hel\",\"done\":false}'',
      ''{\"model\":\"llama3\",\"response\":\"lo\",\"done\":false}'',
      ''{\"model\":\"llama3\",\"response\":\"\",\"done\":true,\"context\":[1,2]}'']"
  by (simp add: stream_lines_def sample_chunks_def lines_of_def trim_def is_space_def)

lemma sample_stream_parse:
  "map sample_parse (stream_lines sample_chunks) =
     map Some
       ([\<lparr> rec_response = Some ''Hel'', rec_done = False,
            rec_model = Some ''llama3'', rec_context = None \<rparr>,
         \<lparr> rec_response = Some ''lo'', rec_done = False,
            rec_model = Some ''llama3'', rec_context = None \<rparr>] @
        \<lparr> rec_response = Some [], rec_done = True,
          rec_model = Some ''llama3'', rec_context = Some [1, 2] \<rparr> # [])"
  unfolding sample_stream_lines by (simp add: sample_parse_def)

text \<open>
  The relay on reads that hold whole lines. When every non-blank line of every read is a
  record and \<open>d\<close> is the first record with the completion flag, \<open>generateWithOllama\<close>
  returns success with the concatenation of the non-empty fragments of the records up to
  \<open>d\<close>, in arrival order, and with the model of \<open>d\<close>; \<open>onChunk\<close> has been invoked on
  exactly those fragments, in that order, and on nothing from the records after \<open>d\<close>.
  With an \<open>onChunk\<close> that logs its arguments, the text returned is the concatenation of
  the log.
\<close>

theorem generateWithOllama_well_formed:
  assumes "fetch model prompt = Returns resp" and "resp_ok resp"
    and "map parse (stream_lines (resp_chunks resp)) = map Some (pre @ d # post)"
    and "\<not> list_ex rec_done pre" and "rec_done d"
  shows "generateWithOllama parse fetch model prompt onChunk s =
           (Inr \<lparr> gen_text = concat (fragments (pre @ [d])), gen_model = rec_model d,
                  gen_context = rec_context d \<rparr>,
            forwarded onChunk s (fragments (pre @ [d]))) \<and>
         generateWithOllama parse fetch model prompt (Some log_chunk) [] =
           (Inr \<lparr> gen_text =
                    concat (snd (generateWithOllama parse fetch model prompt (Some log_chunk) [])),
                  gen_model = rec_model d, gen_context = rec_context d \<rparr>,
            fragments (pre @ [d]))"
proof -
  have recs: "stream_records parse (resp_chunks resp) = pre @ d # post"
    unfolding stream_records_def using assms(3) by (rule map_filter_all_Some)
  have run: "generateWithOllama parse fetch model prompt oc s' =
               (Inr \<lparr> gen_text = concat (fragments (pre @ [d])), gen_model = rec_model d,
                      gen_context = rec_context d \<rparr>,
                forwarded oc s' (fragments (pre @ [d])))" for oc and s' :: 't
    by (simp add: generateWithOllama_def assms(1,2) read_loop_eq recs
        first_done [OF assms(4,5)] accumulate_def)
  show ?thesis
    by (simp add: run forwarded_log_chunk)
qed

theorem generateWithOllama_well_formed_witness:
  "generateWithOllama sample_parse (sample_fetch sample_chunks) ''llama3'' ''Hi''
     (Some log_chunk) [] =
     (Inr \<lparr> gen_text = ''Hello'', gen_model = Some ''llama3'', gen_context = Some [1, 2] \<rparr>,
      [''Hel'', ''lo''])"
proof -
  let ?resp = "\<lparr> resp_ok = True, resp_status = 200, resp_chunks = sample_chunks,
                  resp_end = EndOfStream \<rparr>"
  let ?r1 = "\<lparr> rec_response = Some ''Hel'', rec_done = False,
                rec_model = Some ''llama3'', rec_context = None \<rparr>"
  let ?r2 = "\<lparr> rec_response = Some ''lo'', rec_done = False,
                rec_model = Some ''llama3'', rec_context = None \<rparr>"
  let ?d = "\<lparr> rec_response = Some [], rec_done = True,
               rec_model = Some ''llama3'', rec_context = Some [1, 2] \<rparr>"
  have f: "sample_fetch sample_chunks ''llama3'' ''Hi'' = Returns ?resp"
    by (simp add: sample_fetch_def)
  have ok: "resp_ok ?resp"
    by simp
  have lines: "map sample_parse (stream_lines (resp_chunks ?resp)) = map Some ([?r1, ?r2] @ ?d # [])"
    using sample_stream_parse by simp
  have pre: "\<not> list_ex rec_done [?r1, ?r2]" and d: "rec_done ?d"
    by simp_all
  note generateWithOllama_well_formed
         [where fetch = "sample_fetch sample_chunks" and model = "''llama3''"
            and prompt = "''Hi''" and parse = sample_parse and onChunk = "Some log_chunk"
            and s = "[]",
          OF f ok lines pre d]
  then show ?thesis
    by (simp add: forwarded_log_chunk)
qed

text \<open>
  C2. On a well-formed stream the relay is to accumulate the fragment of every record up
  to the first completed one and to return their concatenation. It does not when a read
  ends inside a record: the three records of the sample stream, whose fragments
  concatenate to \<open>Hello\<close>, delivered in two reads that cut the second record, give the
  text \<open>Hel\<close>, and \<open>onChunk\<close> is invoked on \<open>Hel\<close> alone. Each read is split into
  lines on its own, and both halves of the cut record fail to parse.
\<close>

theorem generateWithOllama_split_record:
  "concat
     [''{\"model\":\"llama3\",\"response\":\"Hel\",\"done\":false}'' @ [LF] @
      ''{\"model\":\"llama3\",\"resp'',
      ''onse\":\"lo\",\"done\":false}'' @ [LF] @
      ''{\"model\":\"llama3\",\"response\":\"\",\"done\":true,\"context\":[1,2]}'' @ [LF]]
     = concat sample_chunks \<and>
   map sample_parse (lines_of (concat sample_chunks)) =
     [Some \<lparr> rec_response = Some ''Hel'', rec_done = False,
              rec_model = Some ''llama3'', rec_context = None \<rparr>,
      Some \<lparr> rec_response = Some ''lo'', rec_done = False,
              rec_model = Some ''llama3'', rec_context = None \<rparr>,
      Some \<lparr> rec_response = Some [], rec_done = True,
              rec_model = Some ''llama3'', rec_context = Some [1, 2] \<rparr>] \<and>
   generateWithOllama sample_parse
     (sample_fetch
        [''{\"model\":\"llama3\",\"response\":\"Hel\",\"done\":false}'' @ [LF] @
         ''{\"model\":\"llama3\",\"resp'',
         ''onse\":\"lo\",\"done\":false}'' @ [LF] @
         ''{\"model\":\"llama3\",\"response\":\"\",\"done\":true,\"context\":[1,2]}'' @ [LF]])
     ''llama3'' ''Hi'' (Some log_chunk) [] =
     (Inr \<lparr> gen_text = ''Hel'', gen_model = Some ''llama3'', gen_context = Some [1, 2] \<rparr>,
      [''Hel'']) \<and>
   concat (fragments
     [\<lparr> rec_response = Some ''Hel'', rec_done = False,
         rec_model = Some ''llama3'', rec_context = None \<rparr>,
      \<lparr> rec_response = Some ''lo'', rec_done = False,
         rec_model = Some ''llama3'', rec_context = None \<rparr>,
      \<lparr> rec_response = Some [], rec_done = True,
         rec_model = Some ''llama3'', rec_context = Some [1, 2] \<rparr>]) = ''Hello''"
  by (simp add: sample_chunks_def generateWithOllama_def sample_fetch_def lines_of_def trim_def
      is_space_def sample_parse_def take_fragment_def log_chunk_def)

text \<open>
  C5. A line that does not parse is skipped: the relay returns the same result, and
  leaves the caller's state the same, as on the stream without that line. The lines
  before it and after it, in the same read and in the other reads, are processed as
  they are without it.
\<close>

theorem generateWithOllama_skips_malformed:
  assumes "parse bad = None"
    and "lines_of chunk = before @ bad # after"
    and "lines_of chunk' = before @ after"
    and "fetch model prompt = Returns resp"
    and "resp_chunks resp = cs1 @ chunk # cs2"
    and "fetch' model prompt = Returns (resp \<lparr> resp_chunks := cs1 @ chunk' # cs2 \<rparr>)"
  shows "generateWithOllama parse fetch model prompt onChunk s =
         generateWithOllama parse fetch' model prompt onChunk s"
proof -
  have "List.map_filter parse (lines_of chunk) = List.map_filter parse (lines_of chunk')"
    by (simp add: assms(1,2,3) map_filter_append)
  then have recs:
    "stream_records parse (cs1 @ chunk # cs2) = stream_records parse (cs1 @ chunk' # cs2)"
    by (simp add: stream_records_append stream_records_Cons)
  have loop: "read_loop parse onChunk (cs1 @ chunk # cs2) ending acc =
              read_loop parse onChunk (cs1 @ chunk' # cs2) ending acc" for ending acc
    unfolding read_loop_eq recs by (rule refl)
  show ?thesis
    by (simp add: generateWithOllama_def assms(4,5,6) loop)
qed

theorem generateWithOllama_skips_malformed_witness:
  "generateWithOllama sample_parse
     (sample_fetch
        [''{\"model\":\"llama3\",\"response\":\"Hel\",\"done\":false}'' @ [LF] @
         ''{\"model\":'' @ [LF] @
         ''{\"model\":\"llama3\",\"response\":\"lo\",\"done\":false}'' @ [LF]])
     ''llama3'' ''Hi'' (Some log_chunk) [] =
   generateWithOllama sample_parse
     (sample_fetch
        [''{\"model\":\"llama3\",\"response\":\"Hel\",\"done\":false}'' @ [LF] @
         ''{\"model\":\"llama3\",\"response\":\"lo\",\"done\":false}'' @ [LF]])
     ''llama3'' ''Hi'' (Some log_chunk) [] \<and>
   generateWithOllama sample_parse
     (sample_fetch
        [''{\"model\":\"llama3\",\"response\":\"Hel\",\"done\":false}'' @ [LF] @
         ''{\"model\":\"llama3\",\"response\":\"lo\",\"done\":false}'' @ [LF]])
     ''llama3'' ''Hi'' (Some log_chunk) [] =
     (Inr \<lparr> gen_text = ''Hello'', gen_model = None, gen_context = None \<rparr>, [''Hel'', ''lo''])"
proof -
  let ?l1 = "''{\"model\":\"llama3\",\"response\":\"Hel\",\"done\":false}''"
  let ?l2 = "''{\"model\":\"llama3\",\"response\":\"lo\",\"done\":false}''"
  let ?bad = "''{\"model\":''"
  let ?chunk = "?l1 @ [LF] @ ?bad @ [LF] @ ?l2 @ [LF]"
  let ?chunk' = "?l1 @ [LF] @ ?l2 @ [LF]"
  let ?resp = "\<lparr> resp_ok = True, resp_status = 200, resp_chunks = [?chunk],
                  resp_end = EndOfStream \<rparr>"
  have bad: "sample_parse ?bad = None"
    by (simp add: sample_parse_def)
  have c: "lines_of ?chunk = [?l1] @ ?bad # [?l2]"
    by (simp add: lines_of_def trim_def is_space_def)
  have c': "lines_of ?chunk' = [?l1] @ [?l2]"
    by (simp add: lines_of_def trim_def is_space_def)
  have f: "sample_fetch [?chunk] ''llama3'' ''Hi'' = Returns ?resp"
    by (simp add: sample_fetch_def)
  have r: "resp_chunks ?resp = [] @ ?chunk # []"
    by simp
  have f': "sample_fetch [?chunk'] ''llama3'' ''Hi'' =
              Returns (?resp \<lparr> resp_chunks := [] @ ?chunk' # [] \<rparr>)"
    by (simp add: sample_fetch_def)
  have skip: "generateWithOllama sample_parse (sample_fetch [?chunk]) ''llama3'' ''Hi''
                (Some log_chunk) [] =
              generateWithOllama sample_parse (sample_fetch [?chunk']) ''llama3'' ''Hi''
                (Some log_chunk) []"
    by (rule generateWithOllama_skips_malformed
          [where fetch = "sample_fetch [?chunk]" and fetch' = "sample_fetch [?chunk']"
             and model = "''llama3''" and prompt = "''Hi''" and parse = sample_parse
             and bad = ?bad,
           OF bad c c' f r f'])
  have run: "generateWithOllama sample_parse (sample_fetch [?chunk']) ''llama3'' ''Hi''
               (Some log_chunk) [] =
             (Inr \<lparr> gen_text = ''Hello'', gen_model = None, gen_context = None \<rparr>,
              [''Hel'', ''lo''])"
    by (simp add: generateWithOllama_def sample_fetch_def c' [simplified] sample_parse_def
        take_fragment_def log_chunk_def)
  from skip run show ?thesis
    by simp
qed

text \<open>
  C6. When the stream ends and no record has set the completion flag,
  \<open>generateWithOllama\<close> returns success with the text accumulated from all the records,
  and with no model; nothing in the result tells it from a completed generation.
\<close>

theorem generateWithOllama_no_completion:
  assumes "fetch model prompt = Returns resp" and "resp_ok resp"
    and "resp_end resp = EndOfStream"
    and "\<not> list_ex rec_done (stream_records parse (resp_chunks resp))"
  shows "generateWithOllama parse fetch model prompt onChunk s =
           (Inr \<lparr> gen_text = concat (fragments (stream_records parse (resp_chunks resp))),
                  gen_model = None, gen_context = None \<rparr>,
            forwarded onChunk s (fragments (stream_records parse (resp_chunks resp))))"
proof -
  have "find rec_done (stream_records parse (resp_chunks resp)) = None"
    using assms(4) by (simp add: find_None_list_ex)
  then show ?thesis
    by (simp add: generateWithOllama_def assms(1,2,3) read_loop_eq
        upto_done_no_done [OF assms(4)] accumulate_def)
qed

theorem generateWithOllama_no_completion_witness:
  "generateWithOllama sample_parse (sample_fetch (take 1 sample_chunks)) ''llama3'' ''Hi''
     (Some log_chunk) [] =
     (Inr \<lparr> gen_text = ''Hello'', gen_model = None, gen_context = None \<rparr>, [''Hel'', ''lo''])"
proof -
  let ?resp = "\<lparr> resp_ok = True, resp_status = 200, resp_chunks = take 1 sample_chunks,
                  resp_end = EndOfStream \<rparr>"
  have f: "sample_fetch (take 1 sample_chunks) ''llama3'' ''Hi'' = Returns ?resp"
    by (simp add: sample_fetch_def)
  have ok: "resp_ok ?resp" and e: "resp_end ?resp = EndOfStream"
    by simp_all
  have recs: "stream_records sample_parse (resp_chunks ?resp) =
     [\<lparr> rec_response = Some ''Hel'', rec_done = False,
         rec_model = Some ''llama3'', rec_context = None \<rparr>,
      \<lparr> rec_response = Some ''lo'', rec_done = False,
         rec_model = Some ''llama3'', rec_context = None \<rparr>]"
    by (simp add: stream_records_def stream_lines_def sample_chunks_def lines_of_def trim_def
        is_space_def sample_parse_def)
  have nd: "\<not> list_ex rec_done (stream_records sample_parse (resp_chunks ?resp))"
    unfolding recs by simp
  note generateWithOllama_no_completion
         [where fetch = "sample_fetch (take 1 sample_chunks)" and model = "''llama3''"
            and prompt = "''Hi''" and parse = sample_parse and onChunk = "Some log_chunk"
            and s = "[]",
          OF f ok e nd]
  then show ?thesis
    unfolding recs by (simp add: forwarded_log_chunk)
qed

section \<open>Properties of the tab directory\<close>

lemma url_denied_cannot_access: "url_denied u \<Longrightarrow> cannot_access (js_or u [])"
  by (cases u) (auto simp: url_denied_def cannot_access_def js_or_def startsWith_def denylist_def)

lemma extractTabContent_denied:
  assumes "tabs_get chrome tabId = Returns (Some tab)" and "cannot_access (js_or (tab_url tab) [])"
  shows "extractTabContent chrome tabId =
           (\<lparr> title = js_or (tab_title tab) ''Restricted Tab'', url = js_or (tab_url tab) [],
              content = ''[Cannot access system or extension pages]'',
              contentLength = 0, tabTitle = None, tabUrl = None \<rparr>,
            [TabsGet tabId])"
  using assms by (simp add: extractTabContent_def)

lemma extractActiveTabContent_denied:
  assumes "tabs_query_active chrome = Returns (tab # others)"
    and "cannot_access (js_or (tab_url tab) [])"
  shows "extractActiveTabContent chrome =
           (\<lparr> title = ''Current Tab'', url = [],
              content = (if no_id tab then ''[No active tab found]''
                         else ''[Cannot access system or extension pages]''),
              contentLength = 0 \<rparr>,
            [TabsQuery])"
  using assms by (simp add: extractActiveTabContent_def)

text \<open>
  C7. For a tab with no URL, an empty URL or a URL that begins with a prefix of the
  denylist, \<open>extractTabContent\<close> and \<open>extractActiveTabContent\<close> return a placeholder
  with \<open>contentLength = 0\<close>, and the calls they make include no message to the content
  script and no injection of a script.
\<close>

theorem extraction_denied_no_scripting:
  assumes "url_denied (tab_url tab)"
  shows "(tabs_get chrome tabId = Returns (Some tab) \<longrightarrow>
            contentLength (fst (extractTabContent chrome tabId)) = 0 \<and>
            content (fst (extractTabContent chrome tabId)) =
              ''[Cannot access system or extension pages]'' \<and>
            \<not> list_ex page_scripting (snd (extractTabContent chrome tabId))) \<and>
         (tabs_query_active chrome = Returns (tab # others) \<longrightarrow>
            contentLength (fst (extractActiveTabContent chrome)) = 0 \<and>
            content (fst (extractActiveTabContent chrome)) =
              (if no_id tab then ''[No active tab found]''
               else ''[Cannot access system or extension pages]'') \<and>
            \<not> list_ex page_scripting (snd (extractActiveTabContent chrome)))"
  using url_denied_cannot_access [OF assms]
  by (simp add: extractTabContent_denied extractActiveTabContent_denied)

theorem extraction_denied_no_scripting_witness:
  "extractTabContent (sample_chrome settings_tab) (Some 4) =
     (\<lparr> title = ''Settings'', url = ''chrome://settings'',
        content = ''[Cannot access system or extension pages]'',
        contentLength = 0, tabTitle = None, tabUrl = None \<rparr>,
      [TabsGet (Some 4)]) \<and>
   extractActiveTabContent (sample_chrome settings_tab) =
     (\<lparr> title = ''Current Tab'', url = [],
        content = ''[Cannot access system or extension pages]'', contentLength = 0 \<rparr>,
      [TabsQuery]) \<and>
   \<not> list_ex page_scripting (snd (extractTabContent (sample_chrome settings_tab) (Some 4))) \<and>
   \<not> list_ex page_scripting (snd (extractActiveTabContent (sample_chrome settings_tab)))"
proof -
  have denied: "url_denied (tab_url settings_tab)"
    by (simp add: url_denied_def settings_tab_def denylist_def)
  have get: "tabs_get (sample_chrome settings_tab) (Some 4) = Returns (Some settings_tab)"
    and active: "tabs_query_active (sample_chrome settings_tab) = Returns (settings_tab # [])"
    by (simp_all add: sample_chrome_def)
  have run: "extractTabContent (sample_chrome settings_tab) (Some 4) =
     (\<lparr> title = ''Settings'', url = ''chrome://settings'',
        content = ''[Cannot access system or extension pages]'',
        contentLength = 0, tabTitle = None, tabUrl = None \<rparr>,
      [TabsGet (Some 4)])"
    by (simp add: extractTabContent_def sample_chrome_def settings_tab_def js_or_def
        cannot_access_def startsWith_def)
  have run_active: "extractActiveTabContent (sample_chrome settings_tab) =
     (\<lparr> title = ''Current Tab'', url = [],
        content = ''[Cannot access system or extension pages]'', contentLength = 0 \<rparr>,
      [TabsQuery])"
    by (simp add: extractActiveTabContent_def sample_chrome_def settings_tab_def js_or_def
        cannot_access_def startsWith_def no_id_def)
  from extraction_denied_no_scripting
         [OF denied, where chrome = "sample_chrome settings_tab" and tabId = "Some 4"
            and others = "[]"]
       get active run run_active
  show ?thesis
    by simp
qed

section \<open>Properties of the orchestrator\<close>

lemma forEach_tabContents_eq:
  "index + length tabContents \<le> length mentionedTabs \<Longrightarrow>
   forEach_tabContents mentionedTabs tabContents index contextParts =
     Returns (contextParts @
              map (\<lambda>i. tab_block (mentionedTabs ! (index + i)) (tabContents ! i))
                [0..<length tabContents])"
proof (induction tabContents arbitrary: index contextParts)
  case Nil
  show ?case by simp
next
  case (Cons tabData rest)
  have "map (\<lambda>i. tab_block (mentionedTabs ! (index + i)) ((tabData # rest) ! i))
          [0..<length (tabData # rest)] =
        tab_block (mentionedTabs ! index) tabData #
        map (\<lambda>i. tab_block (mentionedTabs ! (Suc index + i)) (rest ! i)) [0..<length rest]"
    by (simp add: upt_conv_Cons map_Suc_upt [symmetric] del: upt_Suc)
  with Cons show ?case
    by simp
qed

lemma handleQuery_prompt_mentions:
  assumes "q_mentionedTabs data \<noteq> []"
  shows "handleQuery_prompt chrome data =
           Returns (tabs_prompt
                      (map (\<lambda>t. tab_block t (fst (extractTabContent chrome (m_id t))))
                         (q_mentionedTabs data))
                      (q_query data))"
proof -
  let ?ms = "q_mentionedTabs data"
  let ?cs = "map (\<lambda>t. fst (extractTabContent chrome (m_id t))) ?ms"
  have "map (\<lambda>i. tab_block (?ms ! (0 + i)) (?cs ! i)) [0..<length ?cs] =
        map (\<lambda>t. tab_block t (fst (extractTabContent chrome (m_id t)))) ?ms"
    by (rule nth_equalityI) simp_all
  then have "forEach_tabContents ?ms ?cs 0 [] =
               Returns (map (\<lambda>t. tab_block t (fst (extractTabContent chrome (m_id t)))) ?ms)"
    using forEach_tabContents_eq [of 0 ?cs ?ms "[]"] by simp
  with assms show ?thesis
    by (simp add: handleQuery_prompt_def Let_def)
qed

lemma handleQuery_prompt_no_mentions:
  "q_mentionedTabs data = [] \<Longrightarrow>
   handleQuery_prompt chrome data = handleStreamingQuery_prompt chrome data"
  by (simp add: handleQuery_prompt_def handleStreamingQuery_prompt_def)

lemma sample_extract:
  "fst (extractTabContent (sample_chrome docs_tab) (Some 3)) =
     \<lparr> title = ''Docs'', url = ''https://x'', content = ''Hello world'', contentLength = 11,
       tabTitle = Some ''Docs'', tabUrl = Some ''https://x'' \<rparr>"
  by (simp add: extractTabContent_def sample_chrome_def docs_tab_def js_or_def
      cannot_access_def startsWith_def request_content_def sample_page_def)

lemma sample_handleQuery_prompt:
  "handleQuery_prompt (sample_chrome docs_tab) sample_query =
     Returns
       (''Based on the following web page content from referenced tabs, please answer the question.''
        @ [LF, LF] @
        ''Tab: Docs'' @ [LF] @
        ''URL: https://x'' @ [LF, LF] @
        ''Content:'' @ [LF] @
        ''Hello world'' @ [LF, LF, LF] @
        ''Question: Summarize'' @ [LF, LF] @
        ''Answer:'')"
proof -
  have "q_mentionedTabs sample_query \<noteq> []"
    by (simp add: sample_query_def)
  from handleQuery_prompt_mentions [OF this, of "sample_chrome docs_tab"] show ?thesis
    by (simp add: sample_query_def sample_extract tabs_prompt_def tab_block_def tpl_def)
qed

text \<open>
  C1. The two handlers do not build the same prompt from the same request: for the
  request of the scenario, with one mentioned tab, \<open>handleQuery\<close> passes the prompt with
  the tab's block to the generator and \<open>handleStreamingQuery\<close> passes the bare question.
\<close>

theorem handleStreamingQuery_prompt_differs:
  "q_model sample_query = Some ''llama3'' \<and>
   handleStreamingQuery_prompt (sample_chrome docs_tab) sample_query = Returns ''Summarize'' \<and>
   handleQuery_prompt (sample_chrome docs_tab) sample_query =
     Returns
       (''Based on the following web page content from referenced tabs, please answer the question.''
        @ [LF, LF] @
        ''Tab: Docs'' @ [LF] @
        ''URL: https://x'' @ [LF, LF] @
        ''Content:'' @ [LF] @
        ''Hello world'' @ [LF, LF, LF] @
        ''Question: Summarize'' @ [LF, LF] @
        ''Answer:'') \<and>
   handleStreamingQuery_prompt (sample_chrome docs_tab) sample_query \<noteq>
     handleQuery_prompt (sample_chrome docs_tab) sample_query"
proof -
  have s: "handleStreamingQuery_prompt (sample_chrome docs_tab) sample_query = Returns ''Summarize''"
    by (simp add: handleStreamingQuery_prompt_def sample_query_def)
  have m: "q_model sample_query = Some ''llama3''"
    by (simp add: sample_query_def)
  show ?thesis
    unfolding s sample_handleQuery_prompt using m by simp
qed

text \<open>
  C3. For a non-empty list of N mentioned tabs, the prompt of \<open>handleQuery\<close> is the
  heading, N blocks joined by the separator, the question and the closing line
  \<open>Answer:\<close>. The blocks follow the order of the mentions: the i-th block carries the
  title and the URL of the i-th mention and the content extracted from its tab.
\<close>

theorem handleQuery_prompt_blocks:
  assumes "q_mentionedTabs data \<noteq> []"
  shows "\<exists>blocks.
           handleQuery_prompt chrome data =
             Returns
               (''Based on the following web page content from referenced tabs, please answer the question.''
                @ [LF, LF] @
                join ([LF] @ ''---'' @ [LF, LF]) blocks @ [LF, LF] @
                ''Question: '' @ q_query data @ [LF, LF] @
                ''Answer:'') \<and>
           length blocks = length (q_mentionedTabs data) \<and>
           (\<forall>i < length blocks.
              blocks ! i =
                ''Tab: '' @ tpl (m_title (q_mentionedTabs data ! i)) @ [LF] @
                ''URL: '' @ tpl (m_url (q_mentionedTabs data ! i)) @ [LF, LF] @
                ''Content:'' @ [LF] @
                content (fst (extractTabContent chrome (m_id (q_mentionedTabs data ! i)))) @ [LF])"
proof -
  let ?blocks = "map (\<lambda>t. tab_block t (fst (extractTabContent chrome (m_id t))))
                   (q_mentionedTabs data)"
  have "handleQuery_prompt chrome data = Returns (tabs_prompt ?blocks (q_query data))"
    using assms by (rule handleQuery_prompt_mentions)
  moreover have "length ?blocks = length (q_mentionedTabs data)"
    by simp
  moreover have "\<forall>i < length ?blocks.
              ?blocks ! i =
                ''Tab: '' @ tpl (m_title (q_mentionedTabs data ! i)) @ [LF] @
                ''URL: '' @ tpl (m_url (q_mentionedTabs data ! i)) @ [LF, LF] @
                ''Content:'' @ [LF] @
                content (fst (extractTabContent chrome (m_id (q_mentionedTabs data ! i)))) @ [LF]"
    by (simp add: tab_block_def)
  ultimately show ?thesis
    unfolding tabs_prompt_def by (intro exI [of _ ?blocks] conjI) simp_all
qed

theorem handleQuery_prompt_blocks_witness:
  "\<exists>blocks.
     handleQuery_prompt (sample_chrome docs_tab) sample_query =
       Returns
         (''Based on the following web page content from referenced tabs, please answer the question.''
          @ [LF, LF] @
          join ([LF] @ ''---'' @ [LF, LF]) blocks @ [LF, LF] @
          ''Question: Summarize'' @ [LF, LF] @
          ''Answer:'') \<and>
     blocks = [''Tab: Docs'' @ [LF] @ ''URL: https://x'' @ [LF, LF] @ ''Content:'' @ [LF] @
               ''Hello world'' @ [LF]]"
proof -
  have ne: "q_mentionedTabs sample_query \<noteq> []"
    by (simp add: sample_query_def)
  from handleQuery_prompt_blocks [OF ne, of "sample_chrome docs_tab"]
  obtain blocks where
    p: "handleQuery_prompt (sample_chrome docs_tab) sample_query =
          Returns
            (''Based on the following web page content from referenced tabs, please answer the question.''
             @ [LF, LF] @
             join ([LF] @ ''---'' @ [LF, LF]) blocks @ [LF, LF] @
             ''Question: '' @ q_query sample_query @ [LF, LF] @
             ''Answer:'')"
    and n: "length blocks = length (q_mentionedTabs sample_query)"
    and b: "\<forall>i < length blocks.
              blocks ! i =
                ''Tab: '' @ tpl (m_title (q_mentionedTabs sample_query ! i)) @ [LF] @
                ''URL: '' @ tpl (m_url (q_mentionedTabs sample_query ! i)) @ [LF, LF] @
                ''Content:'' @ [LF] @
                content (fst (extractTabContent (sample_chrome docs_tab)
                                (m_id (q_mentionedTabs sample_query ! i)))) @ [LF]"
    by blast
  from n have len: "length blocks = 1"
    by (simp add: sample_query_def)
  then obtain x where x: "blocks = [x]"
    by (cases blocks) auto
  from b x have "x = ''Tab: Docs'' @ [LF] @ ''URL: https://x'' @ [LF, LF] @ ''Content:'' @ [LF] @
               ''Hello world'' @ [LF]"
    by (simp add: sample_query_def sample_extract tpl_def)
  with p x show ?thesis
    by (simp add: sample_query_def)
qed

text \<open>
  The prompt of the scenario does not end with the question: the line \<open>Answer:\<close>
  follows it.
\<close>

theorem handleQuery_prompt_ends_with_answer:
  "handleQuery_prompt (sample_chrome docs_tab) sample_query =
     Returns
       (''Based on the following web page content from referenced tabs, please answer the question.''
        @ [LF, LF] @
        ''Tab: Docs'' @ [LF] @
        ''URL: https://x'' @ [LF, LF] @
        ''Content:'' @ [LF] @
        ''Hello world'' @ [LF, LF, LF] @
        ''Question: Summarize'' @ [LF, LF] @
        ''Answer:'') \<and>
   \<not> endsWith
       (''Based on the following web page content from referenced tabs, please answer the question.''
        @ [LF, LF] @
        ''Tab: Docs'' @ [LF] @
        ''URL: https://x'' @ [LF, LF] @
        ''Content:'' @ [LF] @
        ''Hello world'' @ [LF, LF, LF] @
        ''Question: Summarize'' @ [LF, LF] @
        ''Answer:'')
       ''Summarize''"
  unfolding sample_handleQuery_prompt by (simp add: endsWith_def)

section \<open>Properties of the side panel\<close>

lemma push_mentions_map_filter:
  "push_mentions tabs names =
     List.map_filter (\<lambda>name. find (\<lambda>t. tab_title t = Some name) tabs) names"
  by (induction names) (auto split: option.splits)

lemma find_no_title:
  "\<not> list_ex (\<lambda>t. tab_title t = Some name) tabs \<Longrightarrow>
   find (\<lambda>t. tab_title t = Some name) tabs = None"
  by (induction tabs) auto

lemma push_mentions_append:
  "push_mentions tabs (xs @ ys) = push_mentions tabs xs @ push_mentions tabs ys"
  by (induction xs) (auto split: option.splits)

lemma push_mentions_unmatched:
  assumes "\<not> list_ex (\<lambda>t. tab_title t = Some name) tabs"
  shows "push_mentions tabs (before @ name # after) = push_mentions tabs (before @ after)"
  by (simp add: push_mentions_append find_no_title [OF assms])

lemma push_mentions_sound:
  "t \<in> set (push_mentions tabs names) \<Longrightarrow>
   t \<in> set tabs \<and> (\<exists>name \<in> set names. tab_title t = Some name)"
proof (induction names)
  case Nil
  then show ?case by simp
next
  case (Cons name names)
  show ?case
  proof (cases "find (\<lambda>t. tab_title t = Some name) tabs")
    case None
    with Cons show ?thesis by auto
  next
    case (Some tab)
    then have "tab \<in> set tabs" and "tab_title tab = Some name"
      by (auto simp: find_Some_iff)
    with Cons Some show ?thesis by auto
  qed
qed

text \<open>
  The scan for mention tokens finds a token that follows a text without \<open>@\<close>, and goes
  on after its closing quote.
\<close>

lemma mention_names_token:
  assumes "CHR ''@'' \<notin> set pre" and "name \<noteq> []" and "DQ \<notin> set name"
  shows "mention_names (pre @ [CHR ''@'', DQ] @ name @ [DQ] @ rest) = name # mention_names rest"
  using assms(1)
proof (induction pre)
  case Nil
  have "takeWhile (\<lambda>x. x \<noteq> DQ) (name @ DQ # rest) = name"
    and "dropWhile (\<lambda>x. x \<noteq> DQ) (name @ DQ # rest) = DQ # rest"
    using assms(3) by (induction name) auto
  with assms(2) show ?case
    by simp
next
  case (Cons c pre)
  then show ?case by auto
qed

text \<open>
  C4. A mention whose recorded title is the title of no tab of the snapshot adds nothing
  to the list of mentioned tabs, in the panel with the editable input and in the panel
  with the text area; every tab in that list is a tab of the snapshot whose title is the
  title of a mention. \<open>handleSend\<close> sends the request whenever the query is not empty, no
  request is in flight and a model is selected, whatever the mentions resolve to.
\<close>

theorem parseTabMentions_unmatched_dropped:
  "(\<not> list_ex (\<lambda>t. tab_title t = Some name) (allTabs st) \<longrightarrow>
      parseTabMentions st (before @ name # after) = parseTabMentions st (before @ after) \<and>
      (mention_names query = before @ name # after \<longrightarrow>
         parseTabMentions_text st query = push_mentions (allTabs st) (before @ after))) \<and>
   (\<forall>t \<in> set (parseTabMentions st names).
      t \<in> set (allTabs st) \<and> (\<exists>n \<in> set names. tab_title t = Some n)) \<and>
   (\<forall>t \<in> set (parseTabMentions_text st query).
      t \<in> set (allTabs st) \<and> (\<exists>n \<in> set (mention_names query). tab_title t = Some n)) \<and>
   (handleSend st input_value include_page = None \<longleftrightarrow>
      trim input_value = [] \<or> isLoading st \<or> \<not> truthy (selectedModel st)) \<and>
   (\<forall>request. handleSend st input_value include_page = Some request \<longrightarrow>
      q_query request = trim input_value \<and>
      q_mentionedTabs request =
        map mention_of (parseTabMentions_text st (trim input_value)))"
proof (intro conjI impI allI ballI)
  assume "\<not> list_ex (\<lambda>t. tab_title t = Some name) (allTabs st)"
  then show "parseTabMentions st (before @ name # after) = parseTabMentions st (before @ after)"
    unfolding parseTabMentions_def by (rule push_mentions_unmatched)
next
  assume "\<not> list_ex (\<lambda>t. tab_title t = Some name) (allTabs st)"
    and "mention_names query = before @ name # after"
  then show "parseTabMentions_text st query = push_mentions (allTabs st) (before @ after)"
    by (simp add: parseTabMentions_text_def push_mentions_unmatched)
next
  fix t assume "t \<in> set (parseTabMentions st names)"
  then show "t \<in> set (allTabs st)" and "\<exists>n \<in> set names. tab_title t = Some n"
    unfolding parseTabMentions_def by (auto dest: push_mentions_sound)
next
  fix t assume "t \<in> set (parseTabMentions_text st query)"
  then show "t \<in> set (allTabs st)" and "\<exists>n \<in> set (mention_names query). tab_title t = Some n"
    unfolding parseTabMentions_text_def by (auto dest: push_mentions_sound)
next
  show "handleSend st input_value include_page = None \<longleftrightarrow>
          trim input_value = [] \<or> isLoading st \<or> \<not> truthy (selectedModel st)"
    by (simp add: handleSend_def Let_def)
next
  fix request assume "handleSend st input_value include_page = Some request"
  then show "q_query request = trim input_value"
    and "q_mentionedTabs request = map mention_of (parseTabMentions_text st (trim input_value))"
    by (auto simp: handleSend_def Let_def split: if_splits)
qed

theorem parseTabMentions_unmatched_dropped_witness:
  "mention_names (''Compare @'' @ [DQ] @ ''Docs'' @ [DQ] @ '' with @'' @ [DQ] @ ''Gone'' @ [DQ])
     = [''Docs''] @ ''Gone'' # [] \<and>
   parseTabMentions_text
     \<lparr> availableModels = [], selectedModel = Some ''llama3'',
       allTabs = [docs_tab, settings_tab], isLoading = False,
       stored_selectedModel = None \<rparr>
     (''Compare @'' @ [DQ] @ ''Docs'' @ [DQ] @ '' with @'' @ [DQ] @ ''Gone'' @ [DQ])
     = [docs_tab] \<and>
   parseTabMentions
     \<lparr> availableModels = [], selectedModel = Some ''llama3'',
       allTabs = [docs_tab, settings_tab], isLoading = False,
       stored_selectedModel = None \<rparr>
     ([''Docs''] @ ''Gone'' # [])
     = [docs_tab] \<and>
   handleSend
     \<lparr> availableModels = [], selectedModel = Some ''llama3'',
       allTabs = [docs_tab, settings_tab], isLoading = False,
       stored_selectedModel = None \<rparr>
     (''Compare @'' @ [DQ] @ ''Docs'' @ [DQ] @ '' with @'' @ [DQ] @ ''Gone'' @ [DQ]) False
     \<noteq> None"
proof -
  let ?st = "\<lparr> availableModels = [], selectedModel = Some ''llama3'',
                allTabs = [docs_tab, settings_tab], isLoading = False,
                stored_selectedModel = None \<rparr>"
  let ?query = "''Compare @'' @ [DQ] @ ''Docs'' @ [DQ] @ '' with @'' @ [DQ] @ ''Gone'' @ [DQ]"
  have names: "mention_names ?query = [''Docs''] @ ''Gone'' # []"
    by simp
  have gone: "\<not> list_ex (\<lambda>t. tab_title t = Some ''Gone'') (allTabs ?st)"
    by (simp add: docs_tab_def settings_tab_def)
  have docs: "push_mentions (allTabs ?st) ([''Docs''] @ []) = [docs_tab]"
    by (simp add: docs_tab_def)
  have guard: "\<not> (trim ?query = [] \<or> isLoading ?st \<or> \<not> truthy (selectedModel ?st))"
    by (simp add: trim_def is_space_def truthy_def)
  note inst = parseTabMentions_unmatched_dropped
               [where st = "?st" and name = "''Gone''" and before = "[''Docs'']"
                  and after = "[]" and query = "?query" and input_value = "?query"
                  and include_page = False]
  from inst gone names have
    "parseTabMentions ?st ([''Docs''] @ ''Gone'' # []) = parseTabMentions ?st ([''Docs''] @ [])"
    and "parseTabMentions_text ?st ?query = push_mentions (allTabs ?st) ([''Docs''] @ [])"
    by blast+
  moreover from inst guard have "handleSend ?st ?query False \<noteq> None"
    by blast
  ultimately show ?thesis
    using names docs by (simp add: parseTabMentions_def)
qed

text \<open>
  C9. At startup, a saved model name that is not among the fetched models is not
  selected. The first fetched model is selected in its place, by the default of
  \<open>loadModels\<close>; no model is selected only when no model was fetched.
\<close>

theorem init_saved_model_absent:
  assumes "\<not> list_ex (\<lambda>m. md_name m = saved_name) (fetched_models models_response)"
  shows "selectedModel (init (Some saved_name) tabs_response models_response) =
           (case fetched_models models_response of
              [] \<Rightarrow> None
            | first # others \<Rightarrow> Some (md_name first)) \<and>
         selectedModel (init (Some saved_name) tabs_response models_response) \<noteq> Some saved_name"
proof (cases "fetched_models models_response")
  case Nil
  then have "loadModels models_response st = st" for st
    by (auto simp: loadModels_def fetched_models_def split: outcome.splits models_response.splits)
  then show ?thesis
    using Nil by (simp add: init_def Let_def loadTabs_def split: outcome.splits option.splits)
next
  case (Cons first others)
  then have r: "models_response = Returns (ModelsOk (first # others))"
    by (auto simp: fetched_models_def split: outcome.splits models_response.splits)
  from assms Cons have ne: "md_name first \<noteq> saved_name"
    by simp
  show ?thesis
    unfolding r using ne
    by (auto simp: init_def Let_def loadModels_def loadTabs_def truthy_def fetched_models_def
        split: outcome.splits option.splits)
qed

theorem init_saved_model_absent_witness:
  "selectedModel
     (init (Some ''gone'') (Returns (Some [docs_tab]))
        (Returns (ModelsOk [\<lparr> md_name = ''llama3'', md_size = 4 \<rparr>,
                            \<lparr> md_name = ''mistral'', md_size = 7 \<rparr>])))
     = Some ''llama3'' \<and>
   selectedModel (init (Some ''gone'') (Returns (Some [docs_tab])) (Returns ModelsFailed))
     = None"
proof -
  let ?ok = "Returns (ModelsOk [\<lparr> md_name = ''llama3'', md_size = 4 \<rparr>,
                                \<lparr> md_name = ''mistral'', md_size = 7 \<rparr>])"
  have a: "\<not> list_ex (\<lambda>m. md_name m = ''gone'') (fetched_models ?ok)"
    and b: "\<not> list_ex (\<lambda>m. md_name m = ''gone'') (fetched_models (Returns ModelsFailed))"
    by (simp_all add: fetched_models_def)
  from init_saved_model_absent [OF a, of "Returns (Some [docs_tab])"]
       init_saved_model_absent [OF b, of "Returns (Some [docs_tab])"]
  show ?thesis
    by (simp add: fetched_models_def)
qed

text \<open>
  A saved name that is not among the fetched models leaves a model selected all the
  same.
\<close>

theorem init_preselects_first_model:
  "\<not> list_ex (\<lambda>m. md_name m = ''gone'') [\<lparr> md_name = ''llama3'', md_size = 4 \<rparr>] \<and>
   selectedModel
     (init (Some ''gone'') (Returns (Some []))
        (Returns (ModelsOk [\<lparr> md_name = ''llama3'', md_size = 4 \<rparr>])))
     = Some ''llama3'' \<and>
   selectedModel
     (init (Some ''gone'') (Returns (Some []))
        (Returns (ModelsOk [\<lparr> md_name = ''llama3'', md_size = 4 \<rparr>])))
     \<noteq> None"
  by (simp add: init_def Let_def loadModels_def loadTabs_def truthy_def)

text \<open>
  A saved name that is among the fetched models without being the first: \<open>loadModels\<close>
  has written the first name to the storage before \<open>init\<close> reads it.
\<close>

lemma init_saved_model_overwritten:
  "init (Some ''mistral'') (Returns (Some []))
     (Returns (ModelsOk [\<lparr> md_name = ''llama3'', md_size = 4 \<rparr>,
                         \<lparr> md_name = ''mistral'', md_size = 7 \<rparr>]))
   = \<lparr> availableModels = [\<lparr> md_name = ''llama3'', md_size = 4 \<rparr>,
                          \<lparr> md_name = ''mistral'', md_size = 7 \<rparr>],
       selectedModel = Some ''llama3'', allTabs = [], isLoading = False,
       stored_selectedModel = Some ''llama3'' \<rparr>"
  by (simp add: init_def Let_def loadModels_def loadTabs_def truthy_def)

end
